theory Spec2Isabelle
  imports Main "HOL-Library.Sublist"
begin

section \<open>Objects, references and call outcomes\<close>

text \<open>
  The module \<^verbatim>\<open>console_output.py\<close> has two classes: \<^verbatim>\<open>TextStream\<close>, a
  stream adapter, and \<^verbatim>\<open>ConsoleOutputWidget\<close>, which installs adapters in the
  process-wide slots \<^verbatim>\<open>sys.stdout\<close> and \<^verbatim>\<open>sys.stderr\<close>. Python compares
  streams by identity (\<^verbatim>\<open>is\<close>), so every stream object has an identifier and a
  slot holds a reference.

  The model has one widget. The streams it finds in the slots when it is constructed are
  foreign stream objects (or \<^verbatim>\<open>None\<close>); every adapter is one the widget created.
  Text is a \<^verbatim>\<open>str\<close>, modelled as a \<open>string\<close>: a \<open>char\<close> stands for a code point
  below 256, so that \<open>length\<close> is \<^verbatim>\<open>len\<close>. Code points from 256 on are outside
  the model.
\<close>

type_synonym oid = nat

text \<open>A Python call either returns a value or raises an \<^verbatim>\<open>Exception\<close>.\<close>

datatype 'a outcome = Returned 'a | Raised

text \<open>What a stream slot or a stream attribute can hold.\<close>

datatype stream_ref = PyNone | Foreign oid | Adapter oid

text \<open>
  A foreign stream (the terminal, a file, a stream some other redirector installed):
  the texts written to it so far, and whether a call of its \<^verbatim>\<open>write\<close> or
  \<^verbatim>\<open>flush\<close> raises.
\<close>

record foreign_stream =
  f_written :: "string list"
  f_broken :: bool

text \<open>
  \<^verbatim>\<open>TextStream\<close>: the attributes \<^verbatim>\<open>_original_stream\<close>, \<^verbatim>\<open>_buffer\<close> and
  \<^verbatim>\<open>_source\<close>. The class is a toolkit object; once the toolkit has destroyed the
  object behind it, emitting its signal raises, which \<open>ts_alive\<close> records.
\<close>

record text_stream =
  ts_original_stream :: "oid option"
  ts_buffer :: string
  ts_source :: string
  ts_alive :: bool

text \<open>
  The toolkit's plain-text editor behind \<^verbatim>\<open>_text_edit\<close>: the text of its document
  (the visible buffer), the value of its vertical scroll bar, and whether the toolkit
  object still exists. Every call on a destroyed editor raises.
\<close>

record plain_text_edit =
  document :: string
  scroll_value :: nat
  pte_alive :: bool

text \<open>
  What the source leaves to the toolkit, taken as parameters of a run:
  \<^item> whether the emitter of a signal sees an exception of the slot it calls;
  \<^item> the layout of a block: the offsets inside the text of a block at which a new
    visual line starts (none when the block fits the width of the viewport;
    \<^verbatim>\<open>_setup_ui\<close> sets wrapping at the widget's width);
  \<^item> the maximum of the vertical scroll bar for a document;
  \<^item> the toolkit's own scrolling: the scroll value the toolkit itself leaves, from
    the value before, after a call that moved the editor's cursor or changed the
    document to the given one (the identity for a toolkit that leaves the view alone).
\<close>

record toolkit =
  tk_slot_errors_propagate :: bool
  tk_wrap_offsets :: "string \<Rightarrow> nat list"
  tk_scroll_maximum :: "string \<Rightarrow> nat"
  tk_own_scroll :: "string \<Rightarrow> nat \<Rightarrow> nat"

text \<open>
  A callback \<^verbatim>\<open>(text, source) -> None\<close>: an identity, and for which arguments the
  call raises. Each call is recorded in the world's \<open>callback_log\<close>.
\<close>

datatype callback = Callback (cb_id: oid) (cb_raises: "string \<Rightarrow> string \<Rightarrow> bool")

text \<open>\<^verbatim>\<open>ConsoleOutputWidget\<close>: the attributes set in \<^verbatim>\<open>__init__\<close> and \<^verbatim>\<open>_setup_ui\<close>.\<close>

record console_output_widget =
  original_stdout :: "oid option"
  original_stderr :: "oid option"
  stdout_stream :: "oid option"
  stderr_stream :: "oid option"
  capture_stdout :: bool
  capture_stderr :: bool
  text_callback :: "callback option"
  max_lines :: int
  auto_scroll :: bool
  text_edit :: "plain_text_edit option"

text \<open>
  The world: the two global slots, the foreign streams by identifier, the adapters
  created so far (an adapter's identifier is its index), the log of callback calls,
  the toolkit's parameters, the notifications posted to the event queue of the widget's
  thread and not yet delivered (text and source label, oldest first), and the widget.
\<close>

record world =
  sys_stdout :: stream_ref
  sys_stderr :: stream_ref
  foreign :: "oid \<Rightarrow> foreign_stream"
  adapters :: "text_stream list"
  callback_log :: "(oid \<times> string \<times> string) list"
  slot_errors_propagate :: bool
  wrap_offsets :: "string \<Rightarrow> nat list"
  scroll_maximum :: "string \<Rightarrow> nat"
  own_scroll :: "string \<Rightarrow> nat \<Rightarrow> nat"
  event_queue :: "(string \<times> string) list"
  widget :: console_output_widget

definition foreign_ref :: "oid option \<Rightarrow> stream_ref" where
  "foreign_ref r = (case r of None \<Rightarrow> PyNone | Some i \<Rightarrow> Foreign i)"

definition adapter_ref :: "oid option \<Rightarrow> stream_ref" where
  "adapter_ref r = (case r of None \<Rightarrow> PyNone | Some a \<Rightarrow> Adapter a)"

text \<open>\<^verbatim>\<open>stream.write(text)\<close> on a foreign stream.\<close>

definition foreign_write :: "oid \<Rightarrow> string \<Rightarrow> world \<Rightarrow> world \<times> unit outcome" where
  "foreign_write i text s =
     (if f_broken (foreign s i) then (s, Raised)
      else (s\<lparr>foreign := (foreign s)
                (i := (foreign s i)\<lparr>f_written := f_written (foreign s i) @ [text]\<rparr>)\<rparr>,
            Returned ()))"

section \<open>The document and its cursor\<close>

text \<open>
  A document is a sequence of blocks; it is held as its text, with a line feed between
  two blocks, so the document always has at least one block. A cursor is an anchor and a
  position, both character offsets.
\<close>

definition blockCount :: "string \<Rightarrow> nat" where
  "blockCount doc = Suc (length (filter (\<lambda>c. c = CHR 0x0A) doc))"

record text_cursor =
  anchor :: nat
  position :: nat

fun past_newline :: "string \<Rightarrow> nat option" where
  "past_newline [] = None"
| "past_newline (c # cs) =
     (if c = CHR 0x0A then Some 1 else map_option Suc (past_newline cs))"

definition move_Start :: "text_cursor \<Rightarrow> text_cursor" where
  "move_Start c = \<lparr>anchor = 0, position = 0\<rparr>"

definition move_StartOfBlock :: "string \<Rightarrow> text_cursor \<Rightarrow> text_cursor" where
  "move_StartOfBlock doc c =
     (let p = position c
              - length (takeWhile (\<lambda>x. x \<noteq> CHR 0x0A) (rev (take (position c) doc)))
      in \<lparr>anchor = p, position = p\<rparr>)"

text \<open>
  \<^verbatim>\<open>Down\<close> moves one visual line down, in the column the cursor had when it
  started to move; that is column 0 here, since the cursor comes from the start of the
  document. So it lands at the start of the next visual line: the next one of the
  current block, if the layout (\<open>wrap\<close>) breaks the block after the cursor, and the
  start of the next block otherwise. In the last line of the document the move fails
  and the cursor stays.
\<close>

definition move_Down :: "(string \<Rightarrow> nat list) \<Rightarrow> string \<Rightarrow> text_cursor \<Rightarrow> text_cursor" where
  "move_Down wrap doc c =
     (let bs = position (move_StartOfBlock doc c);
          b = takeWhile (\<lambda>x. x \<noteq> CHR 0x0A) (drop bs doc);
          ws = filter (\<lambda>off. position c - bs < off \<and> off < length b) (wrap b)
      in case ws of
           off # offs \<Rightarrow>
             \<lparr>anchor = bs + fold min offs off, position = bs + fold min offs off\<rparr>
         | [] \<Rightarrow>
             (case past_newline (drop (position c) doc) of
                None \<Rightarrow> c
              | Some k \<Rightarrow> \<lparr>anchor = position c + k, position = position c + k\<rparr>))"

text \<open>\<^verbatim>\<open>End\<close> is the end of the document; with \<^verbatim>\<open>KeepAnchor\<close> the anchor stays.\<close>

definition move_End_KeepAnchor :: "string \<Rightarrow> text_cursor \<Rightarrow> text_cursor" where
  "move_End_KeepAnchor doc c = c\<lparr>position := length doc\<rparr>"

definition removeSelectedText :: "string \<Rightarrow> text_cursor \<Rightarrow> string" where
  "removeSelectedText doc c =
     take (min (anchor c) (position c)) doc @ drop (max (anchor c) (position c)) doc"

text \<open>
  \<^verbatim>\<open>insertPlainText\<close> starts a new block at every line feed, at every carriage
  return, and once at a carriage return followed by a line feed; every other character
  below 256 goes into the block as it is. This is the text as the document holds it.
\<close>

fun plain_form :: "string \<Rightarrow> string" where
  "plain_form [] = []"
| "plain_form [c] = (if c = CHR 0x0D then [CHR 0x0A] else [c])"
| "plain_form (c # d # ds) =
     (if c = CHR 0x0D \<and> d = CHR 0x0A then CHR 0x0A # plain_form ds
      else if c = CHR 0x0D then CHR 0x0A # plain_form (d # ds)
      else c # plain_form (d # ds))"


text \<open>The lines of a text, for reading a buffer: the blocks between the line feeds.\<close>

fun split_lines :: "string \<Rightarrow> string list" where
  "split_lines [] = [[]]"
| "split_lines (c # cs) =
     (if c = CHR 0x0A then [] # split_lines cs
      else (case split_lines cs of [] \<Rightarrow> [[c]] | l # ls \<Rightarrow> (c # l) # ls))"

section \<open>The internal append path\<close>

text \<open>
  ``Limit buffer size'' in \<^verbatim>\<open>_append_text_internal\<close>: when the block count exceeds
  \<^verbatim>\<open>_max_lines\<close>, a new cursor goes to the start, down by the excess, to the start
  of the block it is in, then selects to the end of the document, and the selection is
  removed.
\<close>

definition limit_buffer_size :: "(string \<Rightarrow> nat list) \<Rightarrow> int \<Rightarrow> string \<Rightarrow> string" where
  "limit_buffer_size wrap m doc =
     (if int (blockCount doc) > m then
        (let c0 = move_Start \<lparr>anchor = 0, position = 0\<rparr>;
             c1 = (move_Down wrap doc ^^ nat (int (blockCount doc) - m)) c0;
             c2 = move_StartOfBlock doc c1;
             c3 = move_End_KeepAnchor doc c2
         in removeSelectedText doc c3)
      else doc)"

text \<open>
  The calls of the \<^verbatim>\<open>try\<close> body on a live editor, one by one. After a call that
  moves the editor's cursor or changes the document the toolkit's own scrolling has
  acted; the call on the scroll bar is the widget's.
\<close>

definition moveCursor_End :: "world \<Rightarrow> plain_text_edit \<Rightarrow> plain_text_edit" where
  "moveCursor_End s d = d\<lparr>scroll_value := own_scroll s (document d) (scroll_value d)\<rparr>"

definition insertPlainText :: "world \<Rightarrow> string \<Rightarrow> plain_text_edit \<Rightarrow> plain_text_edit" where
  "insertPlainText s text d =
     d\<lparr>document := document d @ plain_form text,
       scroll_value := own_scroll s (document d @ plain_form text) (scroll_value d)\<rparr>"

definition limit_display :: "world \<Rightarrow> plain_text_edit \<Rightarrow> plain_text_edit" where
  "limit_display s d =
     (if int (blockCount (document d)) > max_lines (widget s) then
        d\<lparr>document := limit_buffer_size (wrap_offsets s) (max_lines (widget s)) (document d),
          scroll_value :=
            own_scroll s
              (limit_buffer_size (wrap_offsets s) (max_lines (widget s)) (document d))
              (scroll_value d)\<rparr>
      else d)"

text \<open>``Auto-scroll if enabled'': \<^verbatim>\<open>scrollbar.setValue(scrollbar.maximum())\<close>.\<close>

definition auto_scroll_step :: "world \<Rightarrow> plain_text_edit \<Rightarrow> plain_text_edit" where
  "auto_scroll_step s d =
     (if auto_scroll (widget s) then d\<lparr>scroll_value := scroll_maximum s (document d)\<rparr>
      else d)"

text \<open>
  The \<^verbatim>\<open>try\<close> body. \<open>None\<close> stands for a toolkit call that raised, which a
  destroyed editor does at the first call, before anything has changed.
\<close>

definition display_append :: "world \<Rightarrow> string \<Rightarrow> plain_text_edit \<Rightarrow> plain_text_edit option" where
  "display_append s text d =
     (if pte_alive d
      then Some (auto_scroll_step s
                   (limit_display s (insertPlainText s text (moveCursor_End s d))))
      else None)"

text \<open>
  A call of the callback: the call is logged, and it returns or raises as the callback
  decides.
\<close>

definition call_callback :: "callback \<Rightarrow> string \<Rightarrow> string \<Rightarrow> world \<Rightarrow> world \<times> unit outcome" where
  "call_callback cb text source s =
     (s\<lparr>callback_log := callback_log s @ [(cb_id cb, text, source)]\<rparr>,
      if cb_raises cb text source then Raised else Returned ())"

text \<open>``Fire callback if registered'': the \<^verbatim>\<open>except Exception: pass\<close> drops what it raises.\<close>

definition fire_callback :: "string \<Rightarrow> string \<Rightarrow> world \<Rightarrow> world" where
  "fire_callback text source s =
     (case text_callback (widget s) of
        None \<Rightarrow> s
      | Some cb \<Rightarrow>
          (case call_callback cb text source s of
             (s', Returned u) \<Rightarrow> s'
           | (s', Raised) \<Rightarrow> s'))"

definition append_text_internal :: "string \<Rightarrow> string \<Rightarrow> world \<Rightarrow> world \<times> unit outcome" where
  "append_text_internal text source s =
     (if text = [] then (s, Returned ())
      else
        (let s1 = fire_callback text source s in
         case text_edit (widget s1) of
           None \<Rightarrow>
             (case original_stdout (widget s1) of
                None \<Rightarrow> (s1, Returned ())
              | Some i \<Rightarrow> foreign_write i text s1)
         | Some d \<Rightarrow>
             (case display_append s1 text d of
                Some d' \<Rightarrow> (s1\<lparr>widget := (widget s1)\<lparr>text_edit := Some d'\<rparr>\<rparr>, Returned ())
              | None \<Rightarrow>
                  (case original_stdout (widget s1) of
                     None \<Rightarrow> (s1, Returned ())
                   | Some i \<Rightarrow> (fst (foreign_write i text s1), Returned ())))))"

text \<open>\<^verbatim>\<open>append_text(text, source="manual")\<close>; \<open>None\<close> is the omitted argument.\<close>

definition append_text :: "string \<Rightarrow> string option \<Rightarrow> world \<Rightarrow> world \<times> unit outcome" where
  "append_text text source s =
     append_text_internal text (case source of None \<Rightarrow> ''manual'' | Some l \<Rightarrow> l) s"

section \<open>The stream adapter\<close>

text \<open>
  \<^verbatim>\<open>text_written.emit(text, source)\<close>. Every adapter is connected to the widget's
  \<^verbatim>\<open>_on_text_written\<close>, which calls \<^verbatim>\<open>_append_text_internal\<close>. Emitted on the
  widget's thread, the signal calls the slot at once, so the slot has run when
  \<^verbatim>\<open>emit\<close> returns. Emitting on a destroyed object raises. Toolkit bindings differ
  in what they do with an exception of the slot: \<open>slot_errors_propagate\<close> says whether
  the emitter sees it.
\<close>

definition emit_text_written :: "oid \<Rightarrow> string \<Rightarrow> string \<Rightarrow> world \<Rightarrow> world \<times> unit outcome" where
  "emit_text_written a text source s =
     (if ts_alive (adapters s ! a) then
        (case append_text_internal text source s of
           (s', r) \<Rightarrow> (s', if slot_errors_propagate s then r else Returned ()))
      else (s, Raised))"

definition buffer_add :: "oid \<Rightarrow> string \<Rightarrow> world \<Rightarrow> world" where
  "buffer_add a text s =
     s\<lparr>adapters := (adapters s)
          [a := (adapters s ! a)\<lparr>ts_buffer := ts_buffer (adapters s ! a) @ text\<rparr>]\<rparr>"

text \<open>\<^verbatim>\<open>TextStream.write(text)\<close> on the adapter \<open>a\<close>; it returns \<^verbatim>\<open>len(text)\<close>.\<close>

definition TextStream_write :: "oid \<Rightarrow> string \<Rightarrow> world \<Rightarrow> world \<times> nat outcome" where
  "TextStream_write a text s =
     (if text \<noteq> [] then
        (let s1 = buffer_add a text s in
         case emit_text_written a text (ts_source (adapters s1 ! a)) s1 of
           (s2, Returned u) \<Rightarrow> (s2, Returned (length text))
         | (s2, Raised) \<Rightarrow>
             (case ts_original_stream (adapters s2 ! a) of
                None \<Rightarrow> (s2, Returned (length text))
              | Some i \<Rightarrow> (fst (foreign_write i text s2), Returned (length text))))
      else (s, Returned 0))"

text \<open>
  The same calls on another thread than the widget's: the signal posts the notification
  to the event queue of the widget's thread and returns, and the event loop of that
  thread calls the slot later, oldest notification first. What the slot raises then
  goes to the event loop.
\<close>

definition emit_text_written_queued ::
  "oid \<Rightarrow> string \<Rightarrow> string \<Rightarrow> world \<Rightarrow> world \<times> unit outcome" where
  "emit_text_written_queued a text source s =
     (if ts_alive (adapters s ! a)
      then (s\<lparr>event_queue := event_queue s @ [(text, source)]\<rparr>, Returned ())
      else (s, Raised))"

definition TextStream_write_queued :: "oid \<Rightarrow> string \<Rightarrow> world \<Rightarrow> world \<times> nat outcome" where
  "TextStream_write_queued a text s =
     (if text \<noteq> [] then
        (let s1 = buffer_add a text s in
         case emit_text_written_queued a text (ts_source (adapters s1 ! a)) s1 of
           (s2, Returned u) \<Rightarrow> (s2, Returned (length text))
         | (s2, Raised) \<Rightarrow>
             (case ts_original_stream (adapters s2 ! a) of
                None \<Rightarrow> (s2, Returned (length text))
              | Some i \<Rightarrow> (fst (foreign_write i text s2), Returned (length text))))
      else (s, Returned 0))"

definition process_event :: "world \<Rightarrow> world" where
  "process_event s =
     (case event_queue s of
        [] \<Rightarrow> s
      | (text, source) # q \<Rightarrow> fst (append_text_internal text source (s\<lparr>event_queue := q\<rparr>)))"

text \<open>
  \<^verbatim>\<open>TextStream.flush()\<close> passes the call to the original stream, if there is one,
  and what that raises reaches the caller. A flush changes nothing the model records.
  The queries \<^verbatim>\<open>isatty\<close>, \<^verbatim>\<open>readable\<close>, \<^verbatim>\<open>writable\<close> and \<^verbatim>\<open>seekable\<close>
  return constants.
\<close>

definition TextStream_flush :: "oid \<Rightarrow> world \<Rightarrow> world \<times> unit outcome" where
  "TextStream_flush a s =
     (case ts_original_stream (adapters s ! a) of
        None \<Rightarrow> (s, Returned ())
      | Some i \<Rightarrow> (s, if f_broken (foreign s i) then Raised else Returned ()))"

section \<open>Capture, restore and the other widget operations\<close>

definition new_text_stream :: "oid option \<Rightarrow> string \<Rightarrow> text_stream" where
  "new_text_stream orig source =
     \<lparr>ts_original_stream = orig, ts_buffer = [], ts_source = source, ts_alive = True\<rparr>"

text \<open>
  The three statements that \<^verbatim>\<open>_setup_streams\<close> and the enabling branches of
  \<^verbatim>\<open>set_capture\<close> share: create the adapter, connect it, put it in the slot.
\<close>

definition install_stdout :: "world \<Rightarrow> world" where
  "install_stdout s =
     s\<lparr>adapters := adapters s @ [new_text_stream (original_stdout (widget s)) ''stdout''],
       sys_stdout := Adapter (length (adapters s)),
       widget := (widget s)\<lparr>stdout_stream := Some (length (adapters s))\<rparr>\<rparr>"

definition install_stderr :: "world \<Rightarrow> world" where
  "install_stderr s =
     s\<lparr>adapters := adapters s @ [new_text_stream (original_stderr (widget s)) ''stderr''],
       sys_stderr := Adapter (length (adapters s)),
       widget := (widget s)\<lparr>stderr_stream := Some (length (adapters s))\<rparr>\<rparr>"

definition setup_ui :: "world \<Rightarrow> world" where
  "setup_ui s =
     s\<lparr>widget := (widget s)\<lparr>text_edit :=
          Some \<lparr>document = [], scroll_value = 0, pte_alive = True\<rparr>\<rparr>\<rparr>"

definition setup_streams :: "world \<Rightarrow> world" where
  "setup_streams s =
     (let s1 = (if capture_stdout (widget s) then install_stdout s else s)
      in if capture_stderr (widget s1) then install_stderr s1 else s1)"

text \<open>
  \<^verbatim>\<open>ConsoleOutputWidget(parent, capture_stdout, capture_stderr, text_callback,
  max_lines)\<close>, in a process whose slots hold \<open>so\<close> and \<open>se\<close>, on a toolkit
  \<open>tk\<close>.
\<close>

definition ConsoleOutputWidget_init ::
  "oid option \<Rightarrow> oid option \<Rightarrow> (oid \<Rightarrow> foreign_stream) \<Rightarrow> toolkit
     \<Rightarrow> bool \<Rightarrow> bool \<Rightarrow> callback option \<Rightarrow> int \<Rightarrow> world" where
  "ConsoleOutputWidget_init so se fs tk cap_out cap_err cb ml =
     setup_streams (setup_ui
       \<lparr>sys_stdout = foreign_ref so, sys_stderr = foreign_ref se, foreign = fs,
        adapters = [], callback_log = [],
        slot_errors_propagate = tk_slot_errors_propagate tk,
        wrap_offsets = tk_wrap_offsets tk, scroll_maximum = tk_scroll_maximum tk,
        own_scroll = tk_own_scroll tk, event_queue = [],
        widget = \<lparr>original_stdout = so, original_stderr = se,
                  stdout_stream = None, stderr_stream = None,
                  capture_stdout = cap_out, capture_stderr = cap_err,
                  text_callback = cb, max_lines = ml, auto_scroll = True,
                  text_edit = None\<rparr>\<rparr>)"

definition set_capture_stdout :: "bool \<Rightarrow> world \<Rightarrow> world" where
  "set_capture_stdout out s =
     (if out \<and> \<not> capture_stdout (widget s) then
        (let s1 = install_stdout s in s1\<lparr>widget := (widget s1)\<lparr>capture_stdout := True\<rparr>\<rparr>)
      else if \<not> out \<and> capture_stdout (widget s) then
        (let s1 = (if sys_stdout s = adapter_ref (stdout_stream (widget s))
                   then s\<lparr>sys_stdout := foreign_ref (original_stdout (widget s))\<rparr> else s)
         in s1\<lparr>widget := (widget s1)\<lparr>stdout_stream := None, capture_stdout := False\<rparr>\<rparr>)
      else s)"

definition set_capture_stderr :: "bool \<Rightarrow> world \<Rightarrow> world" where
  "set_capture_stderr err s =
     (if err \<and> \<not> capture_stderr (widget s) then
        (let s1 = install_stderr s in s1\<lparr>widget := (widget s1)\<lparr>capture_stderr := True\<rparr>\<rparr>)
      else if \<not> err \<and> capture_stderr (widget s) then
        (let s1 = (if sys_stderr s = adapter_ref (stderr_stream (widget s))
                   then s\<lparr>sys_stderr := foreign_ref (original_stderr (widget s))\<rparr> else s)
         in s1\<lparr>widget := (widget s1)\<lparr>stderr_stream := None, capture_stderr := False\<rparr>\<rparr>)
      else s)"

definition set_capture :: "bool \<Rightarrow> bool \<Rightarrow> world \<Rightarrow> world" where
  "set_capture out err s = set_capture_stderr err (set_capture_stdout out s)"

definition set_text_callback :: "callback option \<Rightarrow> world \<Rightarrow> world" where
  "set_text_callback cb s = s\<lparr>widget := (widget s)\<lparr>text_callback := cb\<rparr>\<rparr>"

definition on_auto_scroll_toggled :: "bool \<Rightarrow> world \<Rightarrow> world" where
  "on_auto_scroll_toggled checked s = s\<lparr>widget := (widget s)\<lparr>auto_scroll := checked\<rparr>\<rparr>"

text \<open>\<^verbatim>\<open>clear()\<close> has no guard: without an editor, or on a destroyed one, it raises.\<close>

definition clear :: "world \<Rightarrow> world \<times> unit outcome" where
  "clear s =
     (case text_edit (widget s) of
        None \<Rightarrow> (s, Raised)
      | Some d \<Rightarrow>
          (if pte_alive d
           then (s\<lparr>widget := (widget s)\<lparr>text_edit :=
                     Some (d\<lparr>document := [],
                             scroll_value := own_scroll s [] (scroll_value d)\<rparr>)\<rparr>\<rparr>,
                 Returned ())
           else (s, Raised)))"

text \<open>The user drags the scroll bar: the value stays within the range of the bar.\<close>

definition user_scrolls :: "nat \<Rightarrow> world \<Rightarrow> world" where
  "user_scrolls v s =
     (case text_edit (widget s) of
        None \<Rightarrow> s
      | Some d \<Rightarrow>
          s\<lparr>widget := (widget s)\<lparr>text_edit :=
              Some (d\<lparr>scroll_value := min v (scroll_maximum s (document d))\<rparr>)\<rparr>\<rparr>)"

definition restore_streams :: "world \<Rightarrow> world" where
  "restore_streams s =
     (let s1 = (if stdout_stream (widget s) \<noteq> None
                   \<and> sys_stdout s = adapter_ref (stdout_stream (widget s))
                then s\<lparr>sys_stdout := foreign_ref (original_stdout (widget s))\<rparr> else s)
      in if stderr_stream (widget s1) \<noteq> None
            \<and> sys_stderr s1 = adapter_ref (stderr_stream (widget s1))
         then s1\<lparr>sys_stderr := foreign_ref (original_stderr (widget s1))\<rparr> else s1)"

definition closeEvent :: "world \<Rightarrow> world" where
  "closeEvent s = restore_streams s"

section \<open>Runs of the program\<close>

text \<open>
  What can happen to the world after the widget is constructed: code on the widget's
  thread prints to a global slot, or writes to or flushes an adapter it still holds;
  code on another thread writes to an adapter; the event loop delivers the oldest
  pending notification; the widget's methods are called; the user drags the scroll bar;
  other code replaces a global slot (a later redirector); and the toolkit destroys the
  editor or an adapter. An exception that reaches the caller is the caller's to handle;
  the run goes on from the state the call left.
\<close>

datatype operation =
    Print_stdout string
  | Print_stderr string
  | Write_adapter oid string
  | Write_adapter_queued oid string
  | Process_event
  | Flush_adapter oid
  | Append_text string "string option"
  | Set_capture bool bool
  | Set_text_callback "callback option"
  | Auto_scroll_toggled bool
  | Clear
  | User_scrolls nat
  | Restore_streams
  | Close_event
  | Redirect_stdout stream_ref
  | Redirect_stderr stream_ref
  | Destroy_text_edit
  | Destroy_adapter oid

definition valid_ref :: "world \<Rightarrow> stream_ref \<Rightarrow> bool" where
  "valid_ref s r = (case r of Adapter a \<Rightarrow> a < length (adapters s) | _ \<Rightarrow> True)"

text \<open>\<^verbatim>\<open>slot.write(text)\<close> for whatever the slot holds.\<close>

definition stream_write :: "stream_ref \<Rightarrow> string \<Rightarrow> world \<Rightarrow> world \<times> nat outcome" where
  "stream_write r text s =
     (case r of
        PyNone \<Rightarrow> (s, Raised)
      | Foreign i \<Rightarrow>
          (case foreign_write i text s of
             (s', Returned u) \<Rightarrow> (s', Returned (length text))
           | (s', Raised) \<Rightarrow> (s', Raised))
      | Adapter a \<Rightarrow>
          (if a < length (adapters s) then TextStream_write a text s else (s, Raised)))"

definition destroy_text_edit :: "world \<Rightarrow> world" where
  "destroy_text_edit s =
     (case text_edit (widget s) of
        None \<Rightarrow> s
      | Some d \<Rightarrow> s\<lparr>widget := (widget s)\<lparr>text_edit := Some (d\<lparr>pte_alive := False\<rparr>)\<rparr>\<rparr>)"

definition destroy_adapter :: "oid \<Rightarrow> world \<Rightarrow> world" where
  "destroy_adapter a s =
     s\<lparr>adapters := (adapters s)[a := (adapters s ! a)\<lparr>ts_alive := False\<rparr>]\<rparr>"

fun step :: "operation \<Rightarrow> world \<Rightarrow> world" where
  "step (Print_stdout text) s = fst (stream_write (sys_stdout s) text s)"
| "step (Print_stderr text) s = fst (stream_write (sys_stderr s) text s)"
| "step (Write_adapter a text) s = fst (stream_write (Adapter a) text s)"
| "step (Write_adapter_queued a text) s =
     (if a < length (adapters s) then fst (TextStream_write_queued a text s) else s)"
| "step Process_event s = process_event s"
| "step (Flush_adapter a) s = fst (TextStream_flush a s)"
| "step (Append_text text source) s = fst (append_text text source s)"
| "step (Set_capture out err) s = set_capture out err s"
| "step (Set_text_callback cb) s = set_text_callback cb s"
| "step (Auto_scroll_toggled checked) s = on_auto_scroll_toggled checked s"
| "step Clear s = fst (clear s)"
| "step (User_scrolls v) s = user_scrolls v s"
| "step Restore_streams s = restore_streams s"
| "step Close_event s = closeEvent s"
| "step (Redirect_stdout r) s = (if valid_ref s r then s\<lparr>sys_stdout := r\<rparr> else s)"
| "step (Redirect_stderr r) s = (if valid_ref s r then s\<lparr>sys_stderr := r\<rparr> else s)"
| "step Destroy_text_edit s = destroy_text_edit s"
| "step (Destroy_adapter a) s = destroy_adapter a s"

fun run :: "operation list \<Rightarrow> world \<Rightarrow> world" where
  "run [] s = s"
| "run (x # xs) s = run xs (step x s)"

text \<open>The visible buffer, and its lines.\<close>

definition visible_buffer :: "world \<Rightarrow> string option" where
  "visible_buffer s = map_option document (text_edit (widget s))"

definition visible_lines :: "world \<Rightarrow> string list option" where
  "visible_lines s = map_option split_lines (visible_buffer s)"







section \<open>Example worlds\<close>

text \<open>
  Two toolkits. Both lay every block out on one line and give the scroll bar one step
  per block after the first. The first keeps the scroll value within the range of the
  bar and leaves the view alone otherwise; the second keeps the editor's cursor visible,
  so it scrolls to the end when the cursor moves there.
\<close>

definition plain_toolkit :: toolkit where
  "plain_toolkit =
     \<lparr>tk_slot_errors_propagate = False, tk_wrap_offsets = (\<lambda>b. []),
      tk_scroll_maximum = (\<lambda>doc. blockCount doc - 1),
      tk_own_scroll = (\<lambda>doc v. min v (blockCount doc - 1))\<rparr>"


text \<open>
  A process with two working foreign streams, 0 in \<^verbatim>\<open>sys.stdout\<close> and 1 in
  \<^verbatim>\<open>sys.stderr\<close>, in which the widget is constructed with both capture flags set.
\<close>

definition quiet_streams :: "oid \<Rightarrow> foreign_stream" where
  "quiet_streams = (\<lambda>i. \<lparr>f_written = [], f_broken = False\<rparr>)"

definition example_world :: "callback option \<Rightarrow> int \<Rightarrow> world" where
  "example_world cb ml =
     ConsoleOutputWidget_init (Some 0) (Some 1) quiet_streams plain_toolkit True True cb ml"



definition raising_callback :: callback where
  "raising_callback = Callback 7 (\<lambda>t l. True)"

section \<open>Predicates on worlds\<close>

text \<open>
  The global slot still holds the adapter the widget's attribute refers to: the two
  conditions \<^verbatim>\<open>restore_streams\<close> tests before it reverts a slot.
\<close>

definition holds_own_stdout :: "world \<Rightarrow> bool" where
  "holds_own_stdout s =
     (stdout_stream (widget s) \<noteq> None \<and> sys_stdout s = adapter_ref (stdout_stream (widget s)))"

definition holds_own_stderr :: "world \<Rightarrow> bool" where
  "holds_own_stderr s =
     (stderr_stream (widget s) \<noteq> None \<and> sys_stderr s = adapter_ref (stderr_stream (widget s)))"

text \<open>
  What holds of the widget in every run: the recorded originals are the streams found
  at construction, a capture flag is set exactly when the widget holds the adapter, an
  adapter the widget holds exists and carries its label and its original stream, and
  the editor has been created.
\<close>

definition adapter_ok :: "world \<Rightarrow> string \<Rightarrow> oid option \<Rightarrow> oid option \<Rightarrow> bool" where
  "adapter_ok s label orig r =
     (case r of
        None \<Rightarrow> True
      | Some a \<Rightarrow> a < length (adapters s) \<and> ts_source (adapters s ! a) = label
                  \<and> ts_original_stream (adapters s ! a) = orig)"

definition widget_inv :: "oid option \<Rightarrow> oid option \<Rightarrow> world \<Rightarrow> bool" where
  "widget_inv so se s =
     (original_stdout (widget s) = so \<and> original_stderr (widget s) = se
      \<and> capture_stdout (widget s) = (stdout_stream (widget s) \<noteq> None)
      \<and> capture_stderr (widget s) = (stderr_stream (widget s) \<noteq> None)
      \<and> adapter_ok s ''stdout'' so (stdout_stream (widget s))
      \<and> adapter_ok s ''stderr'' se (stderr_stream (widget s))
      \<and> text_edit (widget s) \<noteq> None)"

text \<open>Two worlds whose adapters agree on label and original stream.\<close>

definition same_adapters :: "world \<Rightarrow> world \<Rightarrow> bool" where
  "same_adapters s s' =
     (map ts_source (adapters s') = map ts_source (adapters s)
      \<and> map ts_original_stream (adapters s') = map ts_original_stream (adapters s))"



section \<open>Frame lemmas\<close>

lemma fire_callback_frame:
  "sys_stdout (fire_callback t src s) = sys_stdout s"
  "sys_stderr (fire_callback t src s) = sys_stderr s"
  "foreign (fire_callback t src s) = foreign s"
  "adapters (fire_callback t src s) = adapters s"
  "slot_errors_propagate (fire_callback t src s) = slot_errors_propagate s"
  "widget (fire_callback t src s) = widget s"
  by (simp_all add: fire_callback_def call_callback_def split: option.splits)

lemma fire_callback_log:
  "callback_log (fire_callback t src s) =
     (case text_callback (widget s) of
        None \<Rightarrow> callback_log s
      | Some cb \<Rightarrow> callback_log s @ [(cb_id cb, t, src)])"
  by (simp add: fire_callback_def call_callback_def split: option.splits)

lemma foreign_write_frame:
  "sys_stdout (fst (foreign_write i t s)) = sys_stdout s"
  "sys_stderr (fst (foreign_write i t s)) = sys_stderr s"
  "adapters (fst (foreign_write i t s)) = adapters s"
  "callback_log (fst (foreign_write i t s)) = callback_log s"
  "slot_errors_propagate (fst (foreign_write i t s)) = slot_errors_propagate s"
  "widget (fst (foreign_write i t s)) = widget s"
  by (simp_all add: foreign_write_def)

lemma append_text_internal_frame:
  "sys_stdout (fst (append_text_internal t src s)) = sys_stdout s"
  "sys_stderr (fst (append_text_internal t src s)) = sys_stderr s"
  "adapters (fst (append_text_internal t src s)) = adapters s"
  "slot_errors_propagate (fst (append_text_internal t src s)) = slot_errors_propagate s"
  by (simp_all add: append_text_internal_def Let_def fire_callback_frame foreign_write_frame
      split: option.splits)

lemma append_text_internal_widget:
  "widget (fst (append_text_internal t src s)) =
     (widget s)\<lparr>text_edit := text_edit (widget (fst (append_text_internal t src s)))\<rparr>"
  by (simp add: append_text_internal_def Let_def fire_callback_frame foreign_write_frame
      split: option.splits)

lemma emit_text_written_fst:
  "fst (emit_text_written a t src s) =
     (if ts_alive (adapters s ! a) then fst (append_text_internal t src s) else s)"
  by (simp add: emit_text_written_def split_beta)


lemma TextStream_write_unfold:
  "TextStream_write a t s =
     (if t = [] then (s, Returned 0)
      else
        (let e = emit_text_written a t (ts_source (adapters (buffer_add a t s) ! a))
                   (buffer_add a t s)
         in (if snd e = Raised
             then (case ts_original_stream (adapters (fst e) ! a) of
                     None \<Rightarrow> fst e
                   | Some i \<Rightarrow> fst (foreign_write i t (fst e)))
             else fst e,
             Returned (length t))))"
  by (simp add: TextStream_write_def Let_def split: prod.splits outcome.splits option.splits)

lemma TextStream_write_adapters:
  "adapters (fst (TextStream_write a t s)) =
     (if t = [] then adapters s else adapters (buffer_add a t s))"
  by (simp add: TextStream_write_unfold emit_text_written_fst Let_def
      append_text_internal_frame foreign_write_frame split: option.splits)

lemma TextStream_write_frame:
  "sys_stdout (fst (TextStream_write a t s)) = sys_stdout s"
  "sys_stderr (fst (TextStream_write a t s)) = sys_stderr s"
  "slot_errors_propagate (fst (TextStream_write a t s)) = slot_errors_propagate s"
  by (simp_all add: TextStream_write_unfold emit_text_written_fst Let_def buffer_add_def
      append_text_internal_frame foreign_write_frame split: option.splits)

lemma TextStream_flush_fst: "fst (TextStream_flush a s) = s"
  by (simp add: TextStream_flush_def split: option.splits)


lemma buffer_add_nth:
  "a < length (adapters s) \<Longrightarrow>
     adapters (buffer_add a t s) ! a
       = (adapters s ! a)\<lparr>ts_buffer := ts_buffer (adapters s ! a) @ t\<rparr>"
  by (simp add: buffer_add_def)

lemma fire_callback_toolkit:
  "wrap_offsets (fire_callback t src s) = wrap_offsets s"
  "scroll_maximum (fire_callback t src s) = scroll_maximum s"
  "own_scroll (fire_callback t src s) = own_scroll s"
  "event_queue (fire_callback t src s) = event_queue s"
  by (simp_all add: fire_callback_def call_callback_def split: option.splits)



lemma display_append_cong:
  assumes "own_scroll s' = own_scroll s" and "scroll_maximum s' = scroll_maximum s"
      and "wrap_offsets s' = wrap_offsets s"
      and "max_lines (widget s') = max_lines (widget s)"
      and "auto_scroll (widget s') = auto_scroll (widget s)"
  shows "display_append s' t d = display_append s t d"
  using assms
  by (simp add: display_append_def auto_scroll_step_def limit_display_def
      insertPlainText_def moveCursor_End_def)

lemma display_append_fire_callback:
  "display_append (fire_callback t src s) t' d = display_append s t' d"
  by (rule display_append_cong) (simp_all add: fire_callback_toolkit fire_callback_frame)

lemma TextStream_write_queued_unfold:
  "TextStream_write_queued a t s =
     (if t = [] then (s, Returned 0)
      else if ts_alive (adapters (buffer_add a t s) ! a)
           then ((buffer_add a t s)\<lparr>event_queue := event_queue s
                    @ [(t, ts_source (adapters (buffer_add a t s) ! a))]\<rparr>,
                 Returned (length t))
           else (case ts_original_stream (adapters (buffer_add a t s) ! a) of
                   None \<Rightarrow> (buffer_add a t s, Returned (length t))
                 | Some i \<Rightarrow> (fst (foreign_write i t (buffer_add a t s)),
                               Returned (length t))))"
  by (simp add: TextStream_write_queued_def emit_text_written_queued_def Let_def
      buffer_add_def split: option.splits)

lemma TextStream_write_queued_adapters:
  "adapters (fst (TextStream_write_queued a t s)) =
     (if t = [] then adapters s else adapters (buffer_add a t s))"
  by (simp add: TextStream_write_queued_unfold foreign_write_frame buffer_add_def
      split: option.splits)

lemma TextStream_write_queued_widget:
  "widget (fst (TextStream_write_queued a t s)) = widget s"
  by (simp add: TextStream_write_queued_unfold foreign_write_frame buffer_add_def
      split: option.splits)

section \<open>The widget invariant\<close>

lemma same_adapters_refl: "same_adapters s s"
  by (simp add: same_adapters_def)

lemma same_adapters_length: "same_adapters s s' \<Longrightarrow> length (adapters s') = length (adapters s)"
  unfolding same_adapters_def by (metis length_map)

lemma same_adapters_nth:
  assumes "same_adapters s s'" and "a < length (adapters s)"
  shows "ts_source (adapters s' ! a) = ts_source (adapters s ! a)"
    and "ts_original_stream (adapters s' ! a) = ts_original_stream (adapters s ! a)"
proof -
  have l: "a < length (adapters s')" using assms by (simp add: same_adapters_length)
  have "map ts_source (adapters s') ! a = map ts_source (adapters s) ! a"
    using assms(1) by (simp add: same_adapters_def)
  then show "ts_source (adapters s' ! a) = ts_source (adapters s ! a)"
    using l assms(2) by simp
  have "map ts_original_stream (adapters s') ! a = map ts_original_stream (adapters s) ! a"
    using assms(1) by (simp add: same_adapters_def)
  then show "ts_original_stream (adapters s' ! a) = ts_original_stream (adapters s ! a)"
    using l assms(2) by simp
qed

lemma adapter_ok_same:
  "same_adapters s s' \<Longrightarrow> adapter_ok s l orig r \<Longrightarrow> adapter_ok s' l orig r"
  by (auto simp add: adapter_ok_def same_adapters_length same_adapters_nth split: option.splits)

lemma widget_inv_same:
  assumes "widget_inv so se s" and "same_adapters s s'"
      and "widget s' = (widget s)\<lparr>text_edit := e\<rparr>" and "e \<noteq> None"
  shows "widget_inv so se s'"
  using assms by (simp add: widget_inv_def adapter_ok_same)

lemma same_adapters_update:
  assumes "ts_source x = ts_source (adapters s ! a)"
      and "ts_original_stream x = ts_original_stream (adapters s ! a)"
      and "adapters s' = (adapters s)[a := x]"
  shows "same_adapters s s'"
proof (cases "a < length (adapters s)")
  case True
  then show ?thesis using assms
    by (simp add: same_adapters_def map_update list_update_same_conv)
next
  case False
  then show ?thesis using assms by (simp add: same_adapters_def list_update_beyond)
qed

lemma same_adapters_buffer_add: "same_adapters s (buffer_add a t s)"
  by (rule same_adapters_update [where a = a]) (simp_all add: buffer_add_def)

lemma same_adapters_destroy: "same_adapters s (destroy_adapter a s)"
  by (rule same_adapters_update [where a = a]) (simp_all add: destroy_adapter_def)

lemma same_adapters_eq: "adapters s' = adapters s \<Longrightarrow> same_adapters s s'"
  by (simp add: same_adapters_def)

lemma same_adapters_trans:
  "same_adapters s s' \<Longrightarrow> same_adapters s' s'' \<Longrightarrow> same_adapters s s''"
  by (simp add: same_adapters_def)

lemma same_adapters_TextStream_write: "same_adapters s (fst (TextStream_write a t s))"
proof (cases "t = []")
  case True
  then show ?thesis by (simp add: TextStream_write_unfold same_adapters_refl)
next
  case False
  have "adapters (fst (TextStream_write a t s)) = adapters (buffer_add a t s)"
    using False by (simp add: TextStream_write_adapters)
  then have "same_adapters (buffer_add a t s) (fst (TextStream_write a t s))"
    by (rule same_adapters_eq)
  with same_adapters_buffer_add show ?thesis by (rule same_adapters_trans)
qed

lemma append_text_internal_text_edit:
  "text_edit (widget s) \<noteq> None \<Longrightarrow> text_edit (widget (fst (append_text_internal t src s))) \<noteq> None"
  by (auto simp add: append_text_internal_def Let_def fire_callback_frame foreign_write_frame
      split: option.splits)

lemma TextStream_write_widget:
  "widget (fst (TextStream_write a t s)) =
     (widget s)\<lparr>text_edit := text_edit (widget (fst (TextStream_write a t s)))\<rparr>"
proof -
  have b: "widget (buffer_add a t s) = widget s" by (simp add: buffer_add_def)
  have "\<And>src. widget (fst (append_text_internal t src (buffer_add a t s))) =
     (widget s)\<lparr>text_edit := text_edit (widget (fst (append_text_internal t src (buffer_add a t s))))\<rparr>"
    using append_text_internal_widget [of t _ "buffer_add a t s"] by (simp add: b)
  then show ?thesis
    by (simp add: TextStream_write_unfold emit_text_written_fst Let_def foreign_write_frame b
      split: option.splits)
qed

lemma TextStream_write_text_edit:
  "text_edit (widget s) \<noteq> None \<Longrightarrow> text_edit (widget (fst (TextStream_write a t s))) \<noteq> None"
proof -
  assume h: "text_edit (widget s) \<noteq> None"
  have b: "widget (buffer_add a t s) = widget s" by (simp add: buffer_add_def)
  have "\<And>src. text_edit (widget (fst (append_text_internal t src (buffer_add a t s)))) \<noteq> None"
    using h by (simp add: append_text_internal_text_edit b)
  then show ?thesis using h
    by (simp add: TextStream_write_unfold emit_text_written_fst Let_def foreign_write_frame b
      split: option.splits)
qed

lemma widget_inv_TextStream_write:
  "widget_inv so se s \<Longrightarrow> widget_inv so se (fst (TextStream_write a t s))"
  by (rule widget_inv_same [OF _ same_adapters_TextStream_write TextStream_write_widget])
     (simp_all add: TextStream_write_text_edit widget_inv_def)

lemma widget_inv_append_text_internal:
  "widget_inv so se s \<Longrightarrow> widget_inv so se (fst (append_text_internal t src s))"
  by (rule widget_inv_same [OF _ _ append_text_internal_widget])
     (simp_all add: append_text_internal_text_edit widget_inv_def same_adapters_eq
        append_text_internal_frame)

lemma widget_inv_foreign_write:
  "widget_inv so se s \<Longrightarrow> widget_inv so se (fst (foreign_write i t s))"
  by (simp add: widget_inv_def adapter_ok_def foreign_write_frame split: option.splits)

lemma widget_inv_stream_write:
  "widget_inv so se s \<Longrightarrow> widget_inv so se (fst (stream_write r t s))"
  by (cases r)
     (simp_all add: stream_write_def split_beta widget_inv_foreign_write
        widget_inv_TextStream_write split: outcome.splits)


lemma adapter_ok_append:
  "adapter_ok s l orig r \<Longrightarrow> adapters s' = adapters s @ [x] \<Longrightarrow> adapter_ok s' l orig r"
  by (auto simp add: adapter_ok_def nth_append split: option.splits)

lemma adapter_ok_new:
  "adapters s' = adapters s @ [new_text_stream orig l] \<Longrightarrow>
     adapter_ok s' l orig (Some (length (adapters s)))"
  by (simp add: adapter_ok_def new_text_stream_def)

lemma widget_inv_set_capture_stdout:
  assumes "widget_inv so se s"
  shows "widget_inv so se (set_capture_stdout out s)"
proof -
  let ?n = "install_stdout s"
  have a: "adapters ?n = adapters s @ [new_text_stream so ''stdout'']"
    using assms by (simp add: install_stdout_def widget_inv_def)
  have "adapter_ok ?n ''stdout'' so (Some (length (adapters s)))"
    using a by (rule adapter_ok_new)
  moreover have "adapter_ok ?n ''stderr'' se (stderr_stream (widget s))"
    using assms a by (auto simp add: widget_inv_def intro: adapter_ok_append)
  ultimately show ?thesis
    using assms
    by (simp add: set_capture_stdout_def widget_inv_def Let_def install_stdout_def
        adapter_ok_def split: option.splits)
qed

lemma widget_inv_set_capture_stderr:
  assumes "widget_inv so se s"
  shows "widget_inv so se (set_capture_stderr err s)"
proof -
  let ?n = "install_stderr s"
  have a: "adapters ?n = adapters s @ [new_text_stream se ''stderr'']"
    using assms by (simp add: install_stderr_def widget_inv_def)
  have "adapter_ok ?n ''stderr'' se (Some (length (adapters s)))"
    using a by (rule adapter_ok_new)
  moreover have "adapter_ok ?n ''stdout'' so (stdout_stream (widget s))"
    using assms a by (auto simp add: widget_inv_def intro: adapter_ok_append)
  ultimately show ?thesis
    using assms
    by (simp add: set_capture_stderr_def widget_inv_def Let_def install_stderr_def
        adapter_ok_def split: option.splits)
qed

lemma widget_inv_set_capture:
  "widget_inv so se s \<Longrightarrow> widget_inv so se (set_capture out err s)"
  by (simp add: set_capture_def widget_inv_set_capture_stdout widget_inv_set_capture_stderr)

lemma widget_inv_restore_streams:
  "widget_inv so se s \<Longrightarrow> widget_inv so se (restore_streams s)"
  by (simp add: restore_streams_def widget_inv_def adapter_ok_def Let_def split: option.splits)

lemma widget_inv_clear:
  "widget_inv so se s \<Longrightarrow> widget_inv so se (fst (clear s))"
  by (auto simp add: clear_def widget_inv_def adapter_ok_def split: option.splits)

lemma widget_inv_destroy_text_edit:
  "widget_inv so se s \<Longrightarrow> widget_inv so se (destroy_text_edit s)"
  by (auto simp add: destroy_text_edit_def widget_inv_def adapter_ok_def split: option.splits)

lemma widget_inv_destroy_adapter:
  "widget_inv so se s \<Longrightarrow> widget_inv so se (destroy_adapter a s)"
proof -
  assume h: "widget_inv so se s"
  have w: "widget (destroy_adapter a s) = (widget s)\<lparr>text_edit := text_edit (widget s)\<rparr>"
    by (simp add: destroy_adapter_def)
  show ?thesis
    by (rule widget_inv_same [OF h same_adapters_destroy w]) (use h in \<open>simp add: widget_inv_def\<close>)
qed

lemma widget_inv_redirect:
  "widget_inv so se s \<Longrightarrow> widget_inv so se (s\<lparr>sys_stdout := r\<rparr>)"
  "widget_inv so se s \<Longrightarrow> widget_inv so se (s\<lparr>sys_stderr := r\<rparr>)"
  by (simp_all add: widget_inv_def adapter_ok_def split: option.splits)

lemma widget_inv_simple:
  "widget_inv so se s \<Longrightarrow> widget_inv so se (set_text_callback cb s)"
  "widget_inv so se s \<Longrightarrow> widget_inv so se (on_auto_scroll_toggled b s)"
  by (simp_all add: widget_inv_def adapter_ok_def set_text_callback_def
      on_auto_scroll_toggled_def split: option.splits)

lemma widget_inv_TextStream_write_queued:
  "widget_inv so se s \<Longrightarrow> widget_inv so se (fst (TextStream_write_queued a t s))"
proof -
  assume h: "widget_inv so se s"
  have w: "widget (fst (TextStream_write_queued a t s))
             = (widget s)\<lparr>text_edit := text_edit (widget s)\<rparr>"
    by (simp add: TextStream_write_queued_widget)
  have "adapters (fst (TextStream_write_queued a t s)) = adapters s
        \<or> adapters (fst (TextStream_write_queued a t s)) = adapters (buffer_add a t s)"
    by (simp add: TextStream_write_queued_adapters)
  then have "same_adapters s (fst (TextStream_write_queued a t s))"
    using same_adapters_buffer_add [of s a t]
    by (auto simp add: same_adapters_def)
  then show ?thesis
    by (rule widget_inv_same [OF h _ w]) (use h in \<open>simp add: widget_inv_def\<close>)
qed

lemma widget_inv_event_queue:
  "widget_inv so se s \<Longrightarrow> widget_inv so se (s\<lparr>event_queue := q\<rparr>)"
  by (simp add: widget_inv_def adapter_ok_def split: option.splits)

lemma widget_inv_process_event:
  "widget_inv so se s \<Longrightarrow> widget_inv so se (process_event s)"
  by (simp add: process_event_def widget_inv_event_queue widget_inv_append_text_internal
      split: list.splits prod.splits)

lemma widget_inv_user_scrolls:
  "widget_inv so se s \<Longrightarrow> widget_inv so se (user_scrolls v s)"
  by (auto simp add: user_scrolls_def widget_inv_def adapter_ok_def split: option.splits)

lemma widget_inv_step:
  "widget_inv so se s \<Longrightarrow> widget_inv so se (step x s)"
  by (cases x)
     (simp_all add: widget_inv_stream_write widget_inv_append_text_internal append_text_def
        widget_inv_set_capture widget_inv_simple widget_inv_clear widget_inv_restore_streams
        closeEvent_def widget_inv_redirect widget_inv_destroy_text_edit
        widget_inv_destroy_adapter TextStream_flush_fst
        widget_inv_TextStream_write_queued widget_inv_process_event
        widget_inv_user_scrolls)

lemma widget_inv_run:
  "widget_inv so se s \<Longrightarrow> widget_inv so se (run xs s)"
  by (induction xs arbitrary: s) (simp_all add: widget_inv_step)

lemma widget_inv_init:
  "widget_inv so se (ConsoleOutputWidget_init so se fs prop cap_out cap_err cb ml)"
  by (simp add: ConsoleOutputWidget_init_def setup_streams_def setup_ui_def Let_def
      install_stdout_def install_stderr_def widget_inv_def adapter_ok_def new_text_stream_def
      nth_append)

lemma widget_inv_reachable:
  "widget_inv so se (run xs (ConsoleOutputWidget_init so se fs prop cap_out cap_err cb ml))"
  by (rule widget_inv_run [OF widget_inv_init])

section \<open>Slots under capture and restore\<close>

lemma set_capture_stdout_frame:
  "sys_stderr (set_capture_stdout out s) = sys_stderr s"
  "stderr_stream (widget (set_capture_stdout out s)) = stderr_stream (widget s)"
  "capture_stderr (widget (set_capture_stdout out s)) = capture_stderr (widget s)"
  "original_stderr (widget (set_capture_stdout out s)) = original_stderr (widget s)"
  by (simp_all add: set_capture_stdout_def install_stdout_def Let_def)

lemma set_capture_stderr_frame:
  "sys_stdout (set_capture_stderr err s) = sys_stdout s"
  by (simp add: set_capture_stderr_def install_stderr_def Let_def)

lemma set_capture_stdout_off:
  assumes "capture_stdout (widget s) = (stdout_stream (widget s) \<noteq> None)"
  shows "sys_stdout (set_capture_stdout False s) =
           (if holds_own_stdout s then foreign_ref (original_stdout (widget s)) else sys_stdout s)"
  using assms by (auto simp add: set_capture_stdout_def holds_own_stdout_def Let_def)

lemma set_capture_stderr_off:
  assumes "capture_stderr (widget s) = (stderr_stream (widget s) \<noteq> None)"
  shows "sys_stderr (set_capture_stderr False s) =
           (if holds_own_stderr s then foreign_ref (original_stderr (widget s)) else sys_stderr s)"
  using assms by (auto simp add: set_capture_stderr_def holds_own_stderr_def Let_def)

lemma restore_streams_slots:
  "sys_stdout (restore_streams s) =
     (if holds_own_stdout s then foreign_ref (original_stdout (widget s)) else sys_stdout s)"
  "sys_stderr (restore_streams s) =
     (if holds_own_stderr s then foreign_ref (original_stderr (widget s)) else sys_stderr s)"
  by (auto simp add: restore_streams_def holds_own_stdout_def holds_own_stderr_def Let_def)

lemma set_capture_off_slots:
  assumes "widget_inv so se s"
  shows "sys_stdout (set_capture False err s) =
           (if holds_own_stdout s then foreign_ref so else sys_stdout s)"
    and "sys_stderr (set_capture out False s) =
           (if holds_own_stderr s then foreign_ref se else sys_stderr s)"
proof -
  have i: "original_stdout (widget s) = so" "original_stderr (widget s) = se"
      "capture_stdout (widget s) = (stdout_stream (widget s) \<noteq> None)"
      "capture_stderr (widget s) = (stderr_stream (widget s) \<noteq> None)"
    using assms by (simp_all add: widget_inv_def)
  show "sys_stdout (set_capture False err s) =
           (if holds_own_stdout s then foreign_ref so else sys_stdout s)"
    by (simp add: set_capture_def set_capture_stderr_frame set_capture_stdout_off i)
  have "holds_own_stderr (set_capture_stdout out s) = holds_own_stderr s"
    by (simp add: holds_own_stderr_def set_capture_stdout_frame)
  then show "sys_stderr (set_capture out False s) =
           (if holds_own_stderr s then foreign_ref se else sys_stderr s)"
    by (simp add: set_capture_def set_capture_stderr_off set_capture_stdout_frame i)
qed

section \<open>Adapter buffers\<close>
















section \<open>The append path: fallback, callback, display\<close>

lemma append_text_internal_fallback:
  assumes "text \<noteq> []"
      and "text_edit (widget s) = None \<or> (\<exists>d. text_edit (widget s) = Some d \<and> \<not> pte_alive d)"
  shows "fst (append_text_internal text source s) =
           (case original_stdout (widget s) of
              None \<Rightarrow> fire_callback text source s
            | Some i \<Rightarrow> fst (foreign_write i text (fire_callback text source s)))"
  using assms
  by (auto simp add: append_text_internal_def Let_def fire_callback_frame display_append_def
      split: option.splits)

lemma foreign_write_foreign:
  "foreign (fst (foreign_write i t s)) =
     (if f_broken (foreign s i) then foreign s
      else (foreign s)(i := (foreign s i)\<lparr>f_written := f_written (foreign s i) @ [t]\<rparr>))"
  by (simp add: foreign_write_def)

lemma append_text_internal_log:
  "text \<noteq> [] \<Longrightarrow>
     callback_log (fst (append_text_internal text src s)) =
       (case text_callback (widget s) of
          None \<Rightarrow> callback_log s
        | Some cb \<Rightarrow> callback_log s @ [(cb_id cb, text, src)])"
  by (simp add: append_text_internal_def Let_def fire_callback_log fire_callback_frame
      foreign_write_frame split: option.splits)

lemma TextStream_write_log:
  assumes "a < length (adapters s)" and "ts_alive (adapters s ! a)" and "text \<noteq> []"
  shows "callback_log (fst (TextStream_write a text s)) =
       (case text_callback (widget s) of
          None \<Rightarrow> callback_log s
        | Some cb \<Rightarrow> callback_log s @ [(cb_id cb, text, ts_source (adapters s ! a))])"
proof -
  have b: "widget (buffer_add a text s) = widget s"
      "callback_log (buffer_add a text s) = callback_log s"
    by (simp_all add: buffer_add_def)
  have "callback_log (fst (TextStream_write a text s)) =
          callback_log (fst (append_text_internal text (ts_source (adapters s ! a))
                               (buffer_add a text s)))"
    using assms
    by (simp add: TextStream_write_unfold emit_text_written_fst Let_def buffer_add_nth
        foreign_write_frame split: option.splits)
  then show ?thesis
    using assms(3) by (simp add: append_text_internal_log b split: option.splits)
qed

lemma callback_is_swallowed:
  "snd (append_text_internal text source s)
     = snd (append_text_internal text source (set_text_callback None s))
   \<and> text_edit (widget (fst (append_text_internal text source s)))
     = text_edit (widget (fst (append_text_internal text source (set_text_callback None s))))
   \<and> foreign (fst (append_text_internal text source s))
     = foreign (fst (append_text_internal text source (set_text_callback None s)))"
proof -
  let ?s0 = "set_text_callback None s"
  have d: "\<And>e. display_append (fire_callback text source ?s0) text e
                 = display_append (fire_callback text source s) text e"
    by (simp add: display_append_fire_callback)
       (rule display_append_cong, simp_all add: set_text_callback_def)
  have w: "text_edit (widget (fire_callback text source ?s0))
             = text_edit (widget (fire_callback text source s))"
          "original_stdout (widget (fire_callback text source ?s0))
             = original_stdout (widget (fire_callback text source s))"
          "foreign (fire_callback text source ?s0) = foreign (fire_callback text source s)"
    by (simp_all add: fire_callback_frame set_text_callback_def)
  show ?thesis
  proof (cases "text = []")
    case True
    then show ?thesis
      by (simp add: append_text_internal_def set_text_callback_def)
  next
    case False
    then show ?thesis
      by (simp add: append_text_internal_def Let_def d w foreign_write_def
          split: option.splits)
  qed
qed


lemma limit_buffer_size_within:
  "int (blockCount doc) \<le> m \<Longrightarrow> limit_buffer_size w m doc = doc"
  by (simp add: limit_buffer_size_def)






















lemma limit_buffer_size_prefix: "prefix (limit_buffer_size w m doc) doc"
  by (simp add: limit_buffer_size_def Let_def removeSelectedText_def move_End_KeepAnchor_def
      take_is_prefix)

section \<open>The claims\<close>

text \<open>
  C1: the line cap. The claim says that at most \<^verbatim>\<open>max_lines\<close> lines stay and that they
  are the newest. The selection that ``Limit buffer size'' removes runs from the start
  of the first excess block to the end of the document, so what stays is always a
  beginning of the buffer, whatever the layout of the lines: the oldest lines stay and
  the newest go. With a cap of 3, the
  writes a, b, c, d leave the lines a, d and an empty last line; one write of seven lines
  leaves six lines.
\<close>

theorem line_cap_removes_newest_lines:
  "prefix (limit_buffer_size w m doc) doc
   \<and> visible_lines (run [Print_stdout ''a\<newline>'', Print_stdout ''b\<newline>'',
                          Print_stdout ''c\<newline>'', Print_stdout ''d\<newline>'']
                      (example_world None 3)) = Some [''a'', ''d'', []]
   \<and> visible_lines (run [Print_stdout ''1\<newline>2\<newline>3\<newline>4\<newline>5\<newline>6\<newline>7\<newline>'']
                      (example_world None 3))
       = Some [''1'', ''2'', ''3'', ''4'', ''5'', []]"
proof -
  have "visible_lines (run [Print_stdout ''a\<newline>'', Print_stdout ''b\<newline>'',
                          Print_stdout ''c\<newline>'', Print_stdout ''d\<newline>'']
                      (example_world None 3)) = Some [''a'', ''d'', []]"
    by code_simp
  moreover have "visible_lines (run [Print_stdout ''1\<newline>2\<newline>3\<newline>4\<newline>5\<newline>6\<newline>7\<newline>'']
                      (example_world None 3))
       = Some [''1'', ''2'', ''3'', ''4'', ''5'', []]"
    by code_simp
  ultimately show ?thesis
    by (simp add: limit_buffer_size_prefix)
qed






text \<open>
  C3: in every run, a non-empty text that reaches the append path while a callback is
  registered adds exactly one call to the callback log, with that text and the label
  \<^verbatim>\<open>stdout\<close> for a write on the widget's stdout adapter, \<^verbatim>\<open>stderr\<close> for its stderr
  adapter, \<^verbatim>\<open>manual\<close> for \<^verbatim>\<open>append_text\<close> without a source, and the given source
  otherwise. What the callback raises is dropped: the outcome of the append, the editor
  and the foreign streams are the same as with no callback registered at all.
\<close>

theorem callback_invoked_once_and_errors_swallowed:
  assumes "s = run xs (ConsoleOutputWidget_init so se fs prop cap_out cap_err cb0 ml)"
      and "text \<noteq> []" and "text_callback (widget s) = Some cb"
  shows "(\<forall>a. stdout_stream (widget s) = Some a \<and> ts_alive (adapters s ! a) \<longrightarrow>
            callback_log (fst (TextStream_write a text s))
              = callback_log s @ [(cb_id cb, text, ''stdout'')])
       \<and> (\<forall>a. stderr_stream (widget s) = Some a \<and> ts_alive (adapters s ! a) \<longrightarrow>
            callback_log (fst (TextStream_write a text s))
              = callback_log s @ [(cb_id cb, text, ''stderr'')])
       \<and> callback_log (fst (append_text text None s))
            = callback_log s @ [(cb_id cb, text, ''manual'')]
       \<and> (\<forall>l. callback_log (fst (append_text text (Some l) s))
            = callback_log s @ [(cb_id cb, text, l)])
       \<and> (\<forall>source.
            snd (append_text_internal text source s)
              = snd (append_text_internal text source (set_text_callback None s))
          \<and> text_edit (widget (fst (append_text_internal text source s)))
              = text_edit (widget (fst (append_text_internal text source
                                          (set_text_callback None s))))
          \<and> foreign (fst (append_text_internal text source s))
              = foreign (fst (append_text_internal text source (set_text_callback None s))))"
proof (intro conjI allI impI)
  have i: "widget_inv so se s"
    unfolding assms(1) by (rule widget_inv_reachable)
  {
    fix a
    assume h: "stdout_stream (widget s) = Some a \<and> ts_alive (adapters s ! a)"
    with i have "a < length (adapters s)" "ts_source (adapters s ! a) = ''stdout''"
      by (simp_all add: widget_inv_def adapter_ok_def)
    with h assms(2,3) show "callback_log (fst (TextStream_write a text s))
              = callback_log s @ [(cb_id cb, text, ''stdout'')]"
      by (simp add: TextStream_write_log)
  }
  {
    fix a
    assume h: "stderr_stream (widget s) = Some a \<and> ts_alive (adapters s ! a)"
    with i have "a < length (adapters s)" "ts_source (adapters s ! a) = ''stderr''"
      by (simp_all add: widget_inv_def adapter_ok_def)
    with h assms(2,3) show "callback_log (fst (TextStream_write a text s))
              = callback_log s @ [(cb_id cb, text, ''stderr'')]"
      by (simp add: TextStream_write_log)
  }
  show "callback_log (fst (append_text text None s))
            = callback_log s @ [(cb_id cb, text, ''manual'')]"
    using assms(2,3) by (simp add: append_text_def append_text_internal_log)
  {
    fix l
    show "callback_log (fst (append_text text (Some l) s))
            = callback_log s @ [(cb_id cb, text, l)]"
      using assms(2,3) by (simp add: append_text_def append_text_internal_log)
  }
  {
    fix source
    show "snd (append_text_internal text source s)
              = snd (append_text_internal text source (set_text_callback None s))"
      and "text_edit (widget (fst (append_text_internal text source s)))
              = text_edit (widget (fst (append_text_internal text source
                                          (set_text_callback None s))))"
      and "foreign (fst (append_text_internal text source s))
              = foreign (fst (append_text_internal text source (set_text_callback None s)))"
      using callback_is_swallowed [of "text" source s] by simp_all
  }
qed

theorem callback_invoked_once_and_errors_swallowed_witness:
  "''hi'' \<noteq> []
   \<and> text_callback (widget (run [] (example_world (Some raising_callback) 3)))
       = Some raising_callback
   \<and> cb_raises raising_callback ''hi'' ''stdout''
   \<and> stdout_stream (widget (run [] (example_world (Some raising_callback) 3))) = Some 0
   \<and> ts_alive (adapters (run [] (example_world (Some raising_callback) 3)) ! 0)
   \<and> callback_log (fst (TextStream_write 0 ''hi''
                           (run [] (example_world (Some raising_callback) 3))))
       = [(7, ''hi'', ''stdout'')]
   \<and> callback_log (fst (append_text ''hi'' None
                           (run [] (example_world (Some raising_callback) 3))))
       = [(7, ''hi'', ''manual'')]
   \<and> visible_buffer (fst (TextStream_write 0 ''hi''
                             (run [] (example_world (Some raising_callback) 3))))
       = Some ''hi''"
proof -
  have c: "text_callback (widget (run [] (example_world (Some raising_callback) 3)))
             = Some raising_callback"
    by (simp add: example_world_def ConsoleOutputWidget_init_def setup_streams_def
        setup_ui_def install_stdout_def install_stderr_def Let_def)
  have n: "''hi'' \<noteq> []"
    by simp
  have r: "cb_raises raising_callback ''hi'' ''stdout''"
    by code_simp
  have o: "stdout_stream (widget (run [] (example_world (Some raising_callback) 3))) = Some 0"
    by code_simp
  have a: "ts_alive (adapters (run [] (example_world (Some raising_callback) 3)) ! 0)"
    by code_simp
  have l: "callback_log (run [] (example_world (Some raising_callback) 3)) = []"
    by code_simp
  have i: "cb_id raising_callback = 7"
    by code_simp
  have v: "visible_buffer (fst (TextStream_write 0 ''hi''
                             (run [] (example_world (Some raising_callback) 3))))
             = Some ''hi''"
    by code_simp
  have e: "run [] (example_world (Some raising_callback) 3)
             = run [] (ConsoleOutputWidget_init (Some 0) (Some 1) quiet_streams plain_toolkit
                         True True (Some raising_callback) 3)"
    by (simp add: example_world_def)
  show ?thesis
    using n c r o a l i v callback_invoked_once_and_errors_swallowed [OF e n c]
    by simp
qed

text \<open>
  C4: a widget is constructed with both capture flags set, and the program runs on. If
  the two global slots then hold the widget's own adapters, as they do right after the
  construction, \<^verbatim>\<open>set_capture(False, False)\<close> puts into each slot the very stream
  object that was in it before the construction.
\<close>

theorem set_capture_off_restores_originals:
  assumes "s = run xs (ConsoleOutputWidget_init so se fs prop True True cb ml)"
      and "holds_own_stdout s" and "holds_own_stderr s"
  shows "sys_stdout (set_capture False False s) = foreign_ref so
       \<and> sys_stderr (set_capture False False s) = foreign_ref se
       \<and> holds_own_stdout (ConsoleOutputWidget_init so se fs prop True True cb ml)
       \<and> holds_own_stderr (ConsoleOutputWidget_init so se fs prop True True cb ml)"
proof -
  have "widget_inv so se s"
    unfolding assms(1) by (rule widget_inv_reachable)
  then have "sys_stdout (set_capture False False s) = foreign_ref so"
       and "sys_stderr (set_capture False False s) = foreign_ref se"
    using assms(2,3) by (simp_all add: set_capture_off_slots)
  moreover have "holds_own_stdout (ConsoleOutputWidget_init so se fs prop True True cb ml)"
    by (simp add: ConsoleOutputWidget_init_def setup_streams_def setup_ui_def Let_def
        install_stdout_def install_stderr_def holds_own_stdout_def adapter_ref_def)
  moreover have "holds_own_stderr (ConsoleOutputWidget_init so se fs prop True True cb ml)"
    by (simp add: ConsoleOutputWidget_init_def setup_streams_def setup_ui_def Let_def
        install_stdout_def install_stderr_def holds_own_stderr_def adapter_ref_def)
  ultimately show ?thesis by simp
qed

theorem set_capture_off_restores_originals_witness:
  "holds_own_stdout (run [Print_stdout ''hello'', Clear] (example_world None 3))
   \<and> holds_own_stderr (run [Print_stdout ''hello'', Clear] (example_world None 3))
   \<and> sys_stdout (run [Print_stdout ''hello'', Clear] (example_world None 3)) = Adapter 0
   \<and> sys_stderr (run [Print_stdout ''hello'', Clear] (example_world None 3)) = Adapter 1
   \<and> sys_stdout (set_capture False False
                    (run [Print_stdout ''hello'', Clear] (example_world None 3))) = Foreign 0
   \<and> sys_stderr (set_capture False False
                    (run [Print_stdout ''hello'', Clear] (example_world None 3))) = Foreign 1"
proof -
  have a: "holds_own_stdout (run [Print_stdout ''hello'', Clear] (example_world None 3))"
    by code_simp
  have b: "holds_own_stderr (run [Print_stdout ''hello'', Clear] (example_world None 3))"
    by code_simp
  have c: "sys_stdout (run [Print_stdout ''hello'', Clear] (example_world None 3)) = Adapter 0"
    by code_simp
  have d: "sys_stderr (run [Print_stdout ''hello'', Clear] (example_world None 3)) = Adapter 1"
    by code_simp
  have e: "run [Print_stdout ''hello'', Clear] (example_world None 3)
             = run [Print_stdout ''hello'', Clear]
                 (ConsoleOutputWidget_init (Some 0) (Some 1) quiet_streams plain_toolkit
                    True True None 3)"
    by (simp add: example_world_def)
  show ?thesis
    using a b c d set_capture_off_restores_originals [OF e a b]
    by (simp add: foreign_ref_def)
qed

text \<open>
  C5: in every run each global slot holds one reference, so at most one adapter is in
  it; and \<^verbatim>\<open>restore_streams\<close>, \<^verbatim>\<open>closeEvent\<close> and the disabling branch of
  \<^verbatim>\<open>set_capture\<close> put the original stream back into a slot when the slot still
  holds the adapter the widget holds for it, and leave the slot as it is otherwise.
\<close>

theorem restore_reverts_only_own_adapter:
  assumes "s = run xs (ConsoleOutputWidget_init so se fs prop cap_out cap_err cb ml)"
  shows "(\<forall>a b. sys_stdout s = Adapter a \<and> sys_stdout s = Adapter b \<longrightarrow> a = b)
       \<and> (\<forall>a b. sys_stderr s = Adapter a \<and> sys_stderr s = Adapter b \<longrightarrow> a = b)
       \<and> (holds_own_stdout s \<longrightarrow>
            sys_stdout (restore_streams s) = foreign_ref so
          \<and> sys_stdout (closeEvent s) = foreign_ref so
          \<and> sys_stdout (set_capture False err s) = foreign_ref so)
       \<and> (\<not> holds_own_stdout s \<longrightarrow>
            sys_stdout (restore_streams s) = sys_stdout s
          \<and> sys_stdout (closeEvent s) = sys_stdout s
          \<and> sys_stdout (set_capture False err s) = sys_stdout s)
       \<and> (holds_own_stderr s \<longrightarrow>
            sys_stderr (restore_streams s) = foreign_ref se
          \<and> sys_stderr (closeEvent s) = foreign_ref se
          \<and> sys_stderr (set_capture out False s) = foreign_ref se)
       \<and> (\<not> holds_own_stderr s \<longrightarrow>
            sys_stderr (restore_streams s) = sys_stderr s
          \<and> sys_stderr (closeEvent s) = sys_stderr s
          \<and> sys_stderr (set_capture out False s) = sys_stderr s)"
proof -
  have i: "widget_inv so se s"
    unfolding assms(1) by (rule widget_inv_reachable)
  then have o: "original_stdout (widget s) = so" "original_stderr (widget s) = se"
    by (simp_all add: widget_inv_def)
  show ?thesis
    by (auto simp add: restore_streams_slots closeEvent_def set_capture_off_slots [OF i] o)
qed

theorem restore_reverts_only_own_adapter_witness:
  "holds_own_stdout (run [] (example_world None 3))
   \<and> holds_own_stderr (run [] (example_world None 3))
   \<and> sys_stdout (restore_streams (run [] (example_world None 3))) = Foreign 0
   \<and> sys_stderr (restore_streams (run [] (example_world None 3))) = Foreign 1
   \<and> \<not> holds_own_stdout
         (run [Redirect_stdout (Foreign 7), Redirect_stderr (Foreign 8)] (example_world None 3))
   \<and> \<not> holds_own_stderr
         (run [Redirect_stdout (Foreign 7), Redirect_stderr (Foreign 8)] (example_world None 3))
   \<and> sys_stdout (restore_streams
         (run [Redirect_stdout (Foreign 7), Redirect_stderr (Foreign 8)] (example_world None 3)))
       = Foreign 7
   \<and> sys_stderr (set_capture True False
         (run [Redirect_stdout (Foreign 7), Redirect_stderr (Foreign 8)] (example_world None 3)))
       = Foreign 8"
proof -
  have a: "holds_own_stdout (run [] (example_world None 3))"
    by code_simp
  have b: "holds_own_stderr (run [] (example_world None 3))"
    by code_simp
  have c: "\<not> holds_own_stdout
         (run [Redirect_stdout (Foreign 7), Redirect_stderr (Foreign 8)] (example_world None 3))"
    by code_simp
  have d: "\<not> holds_own_stderr
         (run [Redirect_stdout (Foreign 7), Redirect_stderr (Foreign 8)] (example_world None 3))"
    by code_simp
  have f: "sys_stdout
         (run [Redirect_stdout (Foreign 7), Redirect_stderr (Foreign 8)] (example_world None 3))
       = Foreign 7"
    by code_simp
  have g: "sys_stderr
         (run [Redirect_stdout (Foreign 7), Redirect_stderr (Foreign 8)] (example_world None 3))
       = Foreign 8"
    by code_simp
  have e1: "run [] (example_world None 3)
             = run [] (ConsoleOutputWidget_init (Some 0) (Some 1) quiet_streams plain_toolkit
                         True True None 3)"
    by (simp add: example_world_def)
  have e2: "run [Redirect_stdout (Foreign 7), Redirect_stderr (Foreign 8)] (example_world None 3)
             = run [Redirect_stdout (Foreign 7), Redirect_stderr (Foreign 8)]
                 (ConsoleOutputWidget_init (Some 0) (Some 1) quiet_streams plain_toolkit
                    True True None 3)"
    by (simp add: example_world_def)
  show ?thesis
    using a b c d f g
      restore_reverts_only_own_adapter [OF e1, of False False]
      restore_reverts_only_own_adapter [OF e2, of False True]
    by (simp add: foreign_ref_def)
qed



text \<open>
  C7: an empty text is a no-op on every way into the append path: the internal append,
  \<^verbatim>\<open>append_text\<close> and a write on an adapter return with the world unchanged, so the
  callback log, the visible buffer and the foreign streams are as before.
\<close>

theorem empty_text_is_noop:
  "append_text_internal [] source s = (s, Returned ())
   \<and> append_text [] src s = (s, Returned ())
   \<and> TextStream_write a [] s = (s, Returned 0)"
  by (simp add: append_text_internal_def append_text_def TextStream_write_def)






text \<open>
  C10: when the append path falls back for a non-empty text, because there is no editor
  yet or because the editor's calls raise, the text goes to the original stdout stream
  recorded at construction, whatever the source label: the foreign streams afterwards
  are those after a write of the text to that stream (none without an original stdout),
  every other stream is untouched, among them the original stderr for a text that came
  from stderr, and the visible buffer is as before.
\<close>

theorem fallback_write_goes_to_original_stdout:
  assumes "text \<noteq> []"
      and "text_edit (widget s) = None \<or> (\<exists>d. text_edit (widget s) = Some d \<and> \<not> pte_alive d)"
  shows "foreign (fst (append_text_internal text source s))
           = (case original_stdout (widget s) of
                None \<Rightarrow> foreign s
              | Some i \<Rightarrow> foreign (fst (foreign_write i text s)))
       \<and> (\<forall>i. original_stdout (widget s) = Some i \<and> \<not> f_broken (foreign s i) \<longrightarrow>
              f_written (foreign (fst (append_text_internal text source s)) i)
                = f_written (foreign s i) @ [text])
       \<and> (\<forall>j. original_stdout (widget s) \<noteq> Some j \<longrightarrow>
              foreign (fst (append_text_internal text source s)) j = foreign s j)
       \<and> (\<forall>j. original_stderr (widget s) = Some j \<and> original_stdout (widget s) \<noteq> Some j \<longrightarrow>
              foreign (fst (append_text_internal text ''stderr'' s)) j = foreign s j)
       \<and> visible_buffer (fst (append_text_internal text source s)) = visible_buffer s"
proof -
  have fb: "\<And>src. fst (append_text_internal text src s) =
           (case original_stdout (widget s) of
              None \<Rightarrow> fire_callback text src s
            | Some i \<Rightarrow> fst (foreign_write i text (fire_callback text src s)))"
    using assms by (rule append_text_internal_fallback)
  have 1: "foreign (fst (append_text_internal text source s))
           = (case original_stdout (widget s) of
                None \<Rightarrow> foreign s
              | Some i \<Rightarrow> foreign (fst (foreign_write i text s)))"
    by (simp add: fb foreign_write_foreign fire_callback_frame split: option.splits)
  have 2: "\<forall>i. original_stdout (widget s) = Some i \<and> \<not> f_broken (foreign s i) \<longrightarrow>
              f_written (foreign (fst (append_text_internal text source s)) i)
                = f_written (foreign s i) @ [text]"
    by (simp add: 1 foreign_write_foreign)
  have 3: "\<And>src. \<forall>j. original_stdout (widget s) \<noteq> Some j \<longrightarrow>
              foreign (fst (append_text_internal text src s)) j = foreign s j"
    by (simp add: fb foreign_write_foreign fire_callback_frame split: option.splits)
  have 4: "visible_buffer (fst (append_text_internal text source s)) = visible_buffer s"
    by (simp add: fb visible_buffer_def foreign_write_frame fire_callback_frame
        split: option.splits)
  from 1 2 3 4 show ?thesis by blast
qed

theorem fallback_write_goes_to_original_stdout_witness:
  "''boom'' \<noteq> []
   \<and> text_edit (widget (destroy_text_edit (example_world None 3)))
       = Some \<lparr>document = [], scroll_value = 0, pte_alive = False\<rparr>
   \<and> original_stdout (widget (destroy_text_edit (example_world None 3))) = Some 0
   \<and> original_stderr (widget (destroy_text_edit (example_world None 3))) = Some 1
   \<and> f_written (foreign (fst (append_text_internal ''boom'' ''stderr''
                                  (destroy_text_edit (example_world None 3)))) 0) = [''boom'']
   \<and> foreign (fst (append_text_internal ''boom'' ''stderr''
                      (destroy_text_edit (example_world None 3)))) 1
       = foreign (destroy_text_edit (example_world None 3)) 1
   \<and> f_written (foreign (fst (append_text_internal ''boom'' ''stderr''
                                  (destroy_text_edit (example_world None 3)))) 1) = []"
proof -
  have n: "''boom'' \<noteq> []"
    by simp
  have d: "text_edit (widget (destroy_text_edit (example_world None 3)))
             = Some \<lparr>document = [], scroll_value = 0, pte_alive = False\<rparr>"
    by (simp add: example_world_def ConsoleOutputWidget_init_def setup_streams_def
        setup_ui_def install_stdout_def install_stderr_def Let_def destroy_text_edit_def)
  have h: "text_edit (widget (destroy_text_edit (example_world None 3))) = None
           \<or> (\<exists>d. text_edit (widget (destroy_text_edit (example_world None 3))) = Some d
                  \<and> \<not> pte_alive d)"
    using d by simp
  have o: "original_stdout (widget (destroy_text_edit (example_world None 3))) = Some 0"
    by code_simp
  have e: "original_stderr (widget (destroy_text_edit (example_world None 3))) = Some 1"
    by code_simp
  have b: "\<not> f_broken (foreign (destroy_text_edit (example_world None 3)) 0)"
    by code_simp
  have w: "f_written (foreign (destroy_text_edit (example_world None 3)) 0) = []"
    by code_simp
  have x: "f_written (foreign (destroy_text_edit (example_world None 3)) 1) = []"
    by code_simp
  show ?thesis
    using n d o e b w x fallback_write_goes_to_original_stdout [OF n h, of "''stderr''"]
    by (simp add: foreign_write_foreign)
qed

end
